theory Spec2Isabelle
  imports Complex_Main "HOL-Library.Multiset"
begin

section \<open>Student score reports: a model of student.go\<close>

text \<open>
  The program reads the rows of a spreadsheet, parses each row into a \<open>Student\<close>,
  and prints three reports: averages per component, averages per branch of the 2024
  batch, and the top three students per component.

  Modelling decisions, valid for the whole theory:
  \<^item> a Go \<open>string\<close> is a list of bytes (\<open>string\<close>), so \<open>len\<close> and slicing count bytes;
  \<^item> a \<open>float64\<close> is a \<open>real\<close>: rounding, infinities and NaN are outside the model;
  \<^item> an \<open>int\<close> is an \<open>int\<close> (every value the program holds comes from \<open>strconv.Atoi\<close>,
    which rejects what does not fit 64 bits, or from a slice length);
  \<^item> standard output is the string of bytes printed so far;
  \<^item> a Go \<open>map\<close> is a partial function; where the program ranges over a map, the order
    in which the runtime visits the keys is a parameter of the model;
  \<^item> \<open>strconv.ParseFloat\<close> and \<open>sort.Slice\<close> are library code; they are parameters of the
    functions that call them, and \<open>parseDecimal\<close> and \<open>insertionSort\<close> below are the
    instances used on concrete inputs.
\<close>

subsection \<open>Formatting: the verbs \<open>%d\<close> and \<open>%.2f\<close>\<close>

definition nl :: string where
  "nl = [CHR 0x0A]"

definition digitChar :: "nat \<Rightarrow> char" where
  "digitChar d = ''0123456789'' ! d"

fun fmt_nat :: "nat \<Rightarrow> string" where
  "fmt_nat n = (if n < 10 then [digitChar n] else fmt_nat (n div 10) @ [digitChar (n mod 10)])"

declare fmt_nat.simps [simp del]

definition fmt_d :: "int \<Rightarrow> string" where
  "fmt_d i = (if i < 0 then ''-'' @ fmt_nat (nat (- i)) else fmt_nat (nat i))"

text \<open>Rounding to the nearest integer, ties to the even one, of a non-negative value.\<close>

definition roundHalfEven :: "real \<Rightarrow> nat" where
  "roundHalfEven a =
     (let f = nat \<lfloor>a\<rfloor>; r = a - real f
      in if r < 1 / 2 then f
         else if 1 / 2 < r then f + 1
         else if even f then f else f + 1)"

definition fmt_2f :: "real \<Rightarrow> string" where
  "fmt_2f x =
     (let n = roundHalfEven (\<bar>x\<bar> * 100)
      in (if x < 0 then ''-'' else '''') @ fmt_nat (n div 100) @ ''.''
           @ [digitChar (n mod 100 div 10), digitChar (n mod 10)])"

subsection \<open>\<open>strconv.Atoi\<close>\<close>

definition digit_of :: "char \<Rightarrow> nat option" where
  "digit_of c = map_of
     [(CHR ''0'', 0), (CHR ''1'', 1), (CHR ''2'', 2), (CHR ''3'', 3), (CHR ''4'', 4),
      (CHR ''5'', 5), (CHR ''6'', 6), (CHR ''7'', 7), (CHR ''8'', 8), (CHR ''9'', 9)] c"

text \<open>The value of a run of decimal digits, \<open>None\<close> when a byte is not a digit.\<close>

fun digitsValue :: "nat \<Rightarrow> string \<Rightarrow> nat option" where
  "digitsValue n [] = Some n"
| "digitsValue n (c # cs) =
     (case digit_of c of None \<Rightarrow> None | Some d \<Rightarrow> digitsValue (n * 10 + d) cs)"

text \<open>
  \<open>Atoi\<close> accepts an optional sign followed by at least one decimal digit, and a value
  that fits a 64-bit \<open>int\<close>; \<open>None\<close> stands for a non-nil error.
\<close>

definition Atoi :: "string \<Rightarrow> int option" where
  "Atoi s =
     (let neg = (s \<noteq> [] \<and> hd s = CHR ''-'');
          body = (if s \<noteq> [] \<and> (hd s = CHR ''-'' \<or> hd s = CHR ''+'') then tl s else s)
      in if body = [] then None
         else case digitsValue 0 body of
                None \<Rightarrow> None
              | Some n \<Rightarrow>
                  (let v = (if neg then - int n else int n)
                   in if v < - (2 ^ 63) \<or> 2 ^ 63 - 1 < v then None else Some v))"

subsection \<open>An instance of \<open>strconv.ParseFloat\<close>: plain decimal numerals\<close>

text \<open>
  The result of \<open>strconv.ParseFloat(s, 64)\<close> is a value and a flag that is true when the
  error is not nil. \<open>parseDecimal\<close> reads an optional sign, digits, and an optional point
  followed by digits (at least one digit in all); on any other string it returns the
  value 0 with the error flag, as \<open>ParseFloat\<close> does on a syntax error.
\<close>

type_synonym floatParser = "string \<Rightarrow> real \<times> bool"

definition parseDecimal :: floatParser where
  "parseDecimal s =
     (let neg = (s \<noteq> [] \<and> hd s = CHR ''-'');
          body = (if s \<noteq> [] \<and> (hd s = CHR ''-'' \<or> hd s = CHR ''+'') then tl s else s);
          ip = takeWhile (\<lambda>c. c \<noteq> CHR ''.'') body;
          fp = drop (length ip + 1) body
      in if ip @ fp = [] then (0, True)
         else case digitsValue 0 (ip @ fp) of
                None \<Rightarrow> (0, True)
              | Some n \<Rightarrow>
                  (let v = real n / 10 ^ length fp
                   in (if neg then - v else v, False)))"

subsection \<open>The record and the row parser\<close>

record Student =
  SlNo :: int
  ClassNo :: int
  Emplid :: string
  CampusID :: string
  Quiz :: real
  MidSem :: real
  LabTest :: real
  WeeklyLabs :: real
  PreCompre :: real
  Compre :: real
  Total :: real
  ComputedSum :: real

text \<open>
  \<open>MalformedRow\<close> and \<open>FileError\<close> carry the message of the value built by \<open>fmt.Errorf\<close>;
  \<open>RuntimePanic\<close> is an index or a slice bound out of range.
\<close>

datatype error = MalformedRow string | FileError string | RuntimePanic

fun message :: "error \<Rightarrow> string" where
  "message (MalformedRow m) = m"
| "message (FileError m) = m"
| "message RuntimePanic = ''runtime error''"

definition almostEqual :: "real \<Rightarrow> real \<Rightarrow> bool" where
  "almostEqual a b = (\<bar>a - b\<bar> < 1 / 100)"

text \<open>The closure \<open>parseFloat\<close> of \<open>parseRow\<close>: the empty string is 0 without error.\<close>

definition parseFloat :: "floatParser \<Rightarrow> string \<Rightarrow> real \<times> bool" where
  "parseFloat pf s = (if s = [] then (0, False) else pf s)"

text \<open>
  \<open>parseRow\<close> returns what it printed and its result. The seven calls of \<open>parseFloat\<close>
  assign the same variable \<open>err\<close>, which is tested once, after the last call: only the
  error of \<open>row[10]\<close> is seen. The reads \<open>row[4]\<close> to \<open>row[10]\<close> come before anything is
  printed, so a row shorter than 11 cells panics there with nothing printed.
\<close>

definition parseRow :: "floatParser \<Rightarrow> int \<Rightarrow> string list \<Rightarrow> string \<times> (error + Student)" where
  "parseRow pf rowNum row =
     (if length row \<le> 0 then ('''', Inl RuntimePanic)
      else case Atoi (row ! 0) of
        None \<Rightarrow> ('''', Inl (MalformedRow (''invalid Sl No at row '' @ fmt_d rowNum)))
      | Some slNo \<Rightarrow>
        if length row \<le> 1 then ('''', Inl RuntimePanic)
        else case Atoi (row ! 1) of
          None \<Rightarrow> ('''', Inl (MalformedRow (''invalid Class No at row '' @ fmt_d rowNum)))
        | Some classNo \<Rightarrow>
          if length row \<le> 10 then ('''', Inl RuntimePanic)
          else
            let quiz = fst (parseFloat pf (row ! 4));
                midSem = fst (parseFloat pf (row ! 5));
                labTest = fst (parseFloat pf (row ! 6));
                weeklyLabs = fst (parseFloat pf (row ! 7));
                preCompre = fst (parseFloat pf (row ! 8));
                compre = fst (parseFloat pf (row ! 9));
                (total, err) = parseFloat pf (row ! 10)
            in if err
               then ('''', Inl (MalformedRow (''invalid numeric data at row '' @ fmt_d rowNum)))
               else
                 let computedPreCompre = quiz + midSem + labTest + weeklyLabs;
                     out1 = (if \<not> almostEqual computedPreCompre preCompre
                             then ''Error: Mismatch in PreCompre at row '' @ fmt_d rowNum
                                  @ ''. Expected '' @ fmt_2f computedPreCompre
                                  @ '', Found '' @ fmt_2f preCompre @ nl
                             else '''');
                     computedSum = quiz + midSem + labTest + weeklyLabs + compre;
                     out2 = (if \<not> almostEqual computedSum total
                             then ''Error: Mismatch in total at row '' @ fmt_d rowNum
                                  @ ''. Expected '' @ fmt_2f computedSum
                                  @ '', Found '' @ fmt_2f total @ nl
                             else '''')
                 in (out1 @ out2,
                     Inr \<lparr>SlNo = slNo, ClassNo = classNo, Emplid = row ! 2, CampusID = row ! 3,
                          Quiz = quiz, MidSem = midSem, LabTest = labTest,
                          WeeklyLabs = weeklyLabs, PreCompre = preCompre, Compre = compre,
                          Total = total, ComputedSum = computedSum\<rparr>))"


subsection \<open>Reading the sheet\<close>

text \<open>
  What \<open>excelize.OpenFile\<close> and \<open>GetRows\<close> give for a path: an error of one of
  the two calls, or the rows of the first sheet.
\<close>

datatype workbook = OpenFails string | GetRowsFails string | Sheet "string list list"

text \<open>
  The loop \<open>for i, row := range rows[1:]\<close> over the rows paired with their index \<open>i\<close>;
  \<open>out\<close> is what has been printed and \<open>students\<close> the slice built so far.
\<close>

fun rowsLoop ::
  "floatParser \<Rightarrow> (nat \<times> string list) list \<Rightarrow> string \<Rightarrow> Student list
     \<Rightarrow> string \<times> (error + Student list)" where
  "rowsLoop pf [] out students = (out, Inr students)"
| "rowsLoop pf ((i, row) # rest) out students =
     (if length row < 11 then rowsLoop pf rest out students
      else case parseRow pf (int i + 2) row of
             (d, Inr student) \<Rightarrow> rowsLoop pf rest (out @ d) (students @ [student])
           | (d, Inl RuntimePanic) \<Rightarrow> (out @ d, Inl RuntimePanic)
           | (d, Inl e) \<Rightarrow>
               rowsLoop pf rest
                 (out @ d @ ''Error parsing row '' @ fmt_d (int i + 2) @ '': '' @ message e @ nl)
                 students)"

definition parseExcel :: "floatParser \<Rightarrow> workbook \<Rightarrow> string \<times> (error + Student list)" where
  "parseExcel pf wb =
     (case wb of
        OpenFails e \<Rightarrow> ('''', Inl (FileError (''failed to open file: '' @ e)))
      | GetRowsFails e \<Rightarrow> ('''', Inl (FileError (''failed to read sheet: '' @ e)))
      | Sheet rows \<Rightarrow>
          if length rows < 1 then ('''', Inl RuntimePanic)
          else rowsLoop pf (enumerate 0 (drop 1 rows)) '''' [])"

subsection \<open>Averages\<close>

text \<open>Reading \<open>m[k]\<close> from a map of numbers: a missing key reads as 0.\<close>

definition lookup0 :: "(string \<rightharpoonup> 'a::zero) \<Rightarrow> string \<Rightarrow> 'a" where
  "lookup0 m k = (case m k of None \<Rightarrow> 0 | Some v \<Rightarrow> v)"

text \<open>\<open>m[k] += x\<close> on a map of floats.\<close>

definition addTo :: "(string \<rightharpoonup> real) \<Rightarrow> string \<Rightarrow> real \<Rightarrow> (string \<rightharpoonup> real)" where
  "addTo m k x = m(k \<mapsto> lookup0 m k + x)"

fun sumLoop :: "Student list \<Rightarrow> (string \<rightharpoonup> real) \<Rightarrow> (string \<rightharpoonup> real)" where
  "sumLoop [] sumMap = sumMap"
| "sumLoop (s # rest) sumMap =
     sumLoop rest
       (addTo (addTo (addTo (addTo (addTo (addTo (addTo sumMap
          ''Quiz'' (Quiz s)) ''MidSem'' (MidSem s)) ''LabTest'' (LabTest s))
          ''WeeklyLabs'' (WeeklyLabs s)) ''PreCompre'' (PreCompre s)) ''Compre'' (Compre s))
          ''Total'' (Total s))"

text \<open>
  The map \<open>sum\<close> of the source is \<open>sumMap\<close> here. The second loop ranges over its keys and
  writes one key of \<open>averages\<close> for each: the result has the keys of \<open>sumMap\<close>, whatever the
  order of the visit.
\<close>

definition computeAverages :: "Student list \<Rightarrow> (string \<rightharpoonup> real)" where
  "computeAverages students =
     (let sumMap = sumLoop students Map.empty;
          count = real (length students)
      in (\<lambda>key. case sumMap key of None \<Rightarrow> None | Some val \<Rightarrow> Some (val / count)))"

subsection \<open>Branch averages\<close>

text \<open>\<open>strings.Contains\<close>: some suffix of \<open>s\<close> starts with \<open>substr\<close>.\<close>

fun Contains :: "string \<Rightarrow> string \<Rightarrow> bool" where
  "Contains [] substr = (substr = [])"
| "Contains (c # cs) substr = (take (length substr) (c # cs) = substr \<or> Contains cs substr)"

text \<open>\<open>m[k]++\<close> on a map of ints.\<close>

definition incr :: "(string \<rightharpoonup> int) \<Rightarrow> string \<Rightarrow> (string \<rightharpoonup> int)" where
  "incr m k = m(k \<mapsto> lookup0 m k + 1)"

fun branchLoop ::
  "Student list \<Rightarrow> (string \<rightharpoonup> real) \<Rightarrow> (string \<rightharpoonup> int)
     \<Rightarrow> (string \<rightharpoonup> real) \<times> (string \<rightharpoonup> int)" where
  "branchLoop [] branchTotal branchCount = (branchTotal, branchCount)"
| "branchLoop (s # rest) branchTotal branchCount =
     (if length (CampusID s) < 6 then branchLoop rest branchTotal branchCount
      else
        let yearPrefix = take 4 (CampusID s);
            branchCode = take 2 (drop 4 (CampusID s))
        in if yearPrefix = ''2024'' \<and> Contains branchCode ''A''
           then branchLoop rest (addTo branchTotal branchCode (Total s))
                  (incr branchCount branchCode)
           else branchLoop rest branchTotal branchCount)"

definition computeBranchAverages :: "Student list \<Rightarrow> (string \<rightharpoonup> real)" where
  "computeBranchAverages students =
     (let (branchTotal, branchCount) = branchLoop students Map.empty Map.empty
      in (\<lambda>branch. case branchTotal branch of
            None \<Rightarrow> None
          | Some tot \<Rightarrow>
              Some (tot / real_of_int (lookup0 branchCount branch))))"

text \<open>
  The conditions of the branch report in the words of the specification: the campus
  id has at least 6 characters, its first four are \<open>2024\<close>, and its branch code, the
  characters at positions 4 and 5, has an \<open>A\<close> in it.
\<close>

definition branchCodeOf :: "Student \<Rightarrow> string" where
  "branchCodeOf s = take 2 (drop 4 (CampusID s))"

definition qualifies :: "Student \<Rightarrow> bool" where
  "qualifies s \<longleftrightarrow>
     6 \<le> length (CampusID s) \<and> take 4 (CampusID s) = ''2024'' \<and> CHR ''A'' \<in> set (branchCodeOf s)"

subsection \<open>Rankings\<close>

definition categories :: "string list" where
  "categories = [''Quiz'', ''MidSem'', ''LabTest'', ''WeeklyLabs'', ''PreCompre'', ''Compre'', ''Total'']"

definition getScoreByCategory :: "Student \<Rightarrow> string \<Rightarrow> real" where
  "getScoreByCategory student category =
     (if category = ''Quiz'' then Quiz student
      else if category = ''MidSem'' then MidSem student
      else if category = ''LabTest'' then LabTest student
      else if category = ''WeeklyLabs'' then WeeklyLabs student
      else if category = ''PreCompre'' then PreCompre student
      else if category = ''Compre'' then Compre student
      else if category = ''Total'' then Total student
      else 0)"

definition min' :: "nat \<Rightarrow> nat \<Rightarrow> nat" where
  "min' a b = (if a < b then a else b)"

text \<open>
  \<open>sort.Slice\<close> as a function from the \<open>less\<close> closure and the elements of the slice to
  the elements after the call. The closure of \<open>rankStudents\<close> compares the scores of the
  two elements at the given indices.
\<close>

type_synonym 'a sorter = "('a \<Rightarrow> 'a \<Rightarrow> bool) \<Rightarrow> 'a list \<Rightarrow> 'a list"

definition scoreLess :: "string \<Rightarrow> Student \<Rightarrow> Student \<Rightarrow> bool" where
  "scoreLess category a b = (getScoreByCategory a category > getScoreByCategory b category)"

text \<open>
  The value-level reading of \<open>rankStudents\<close>: \<open>sortedStudents\<close> is the copy, whose length
  the sort in place leaves as it is.
\<close>

definition rankStudents :: "Student sorter \<Rightarrow> Student list \<Rightarrow> (string \<rightharpoonup> Student list)" where
  "rankStudents srt students =
     foldl (\<lambda>rankings category.
              let sortedStudents = [] @ students;
                  sorted = srt (scoreLess category) sortedStudents
              in rankings(category \<mapsto> take (min' 3 (length sortedStudents)) sorted))
       Map.empty categories"

subsection \<open>What \<open>sort.Slice\<close> promises, and the sort it runs on short slices\<close>



text \<open>
  On a slice of at most 12 elements \<open>sort.Slice\<close> runs an insertion sort: each element
  in turn is swapped with its left neighbour while \<open>less\<close> puts it before that
  neighbour. \<open>insertLeft\<close> takes the sorted prefix with its last element first.
\<close>

fun insertLeft :: "('a \<Rightarrow> 'a \<Rightarrow> bool) \<Rightarrow> 'a \<Rightarrow> 'a list \<Rightarrow> 'a list" where
  "insertLeft lt x [] = [x]"
| "insertLeft lt x (y # prefix) =
     (if lt x y then y # insertLeft lt x prefix else x # y # prefix)"

definition insertionSort :: "'a sorter" where
  "insertionSort lt xs = rev (foldl (\<lambda>prefix x. insertLeft lt x prefix) [] xs)"

subsection \<open>Rankings on backing arrays\<close>

text \<open>
  To see what \<open>rankStudents\<close> writes, slices are modelled as Go has them: a heap holds
  the backing arrays, an address is an index into the heap, and a slice is a window
  of one array.
\<close>

type_synonym heap = "Student list list"

record slice =
  array :: nat
  offset :: nat
  len :: nat

definition readSlice :: "heap \<Rightarrow> slice \<Rightarrow> Student list" where
  "readSlice h s = take (len s) (drop (offset s) (h ! array s))"

text \<open>
  \<open>append([]Student{}, students...)\<close>: the empty slice has no capacity, so the elements
  are copied into a backing array that no other slice refers to.
\<close>

definition appendToEmpty :: "heap \<Rightarrow> Student list \<Rightarrow> heap \<times> slice" where
  "appendToEmpty h xs = (h @ [xs], \<lparr>array = length h, offset = 0, len = length xs\<rparr>)"

text \<open>\<open>sort.Slice\<close> rearranges the window of the slice inside its backing array.\<close>

definition sortSliceInPlace :: "Student sorter \<Rightarrow> (Student \<Rightarrow> Student \<Rightarrow> bool) \<Rightarrow> heap \<Rightarrow> slice \<Rightarrow> heap" where
  "sortSliceInPlace srt lt h s =
     (let a = h ! array s
      in h[array s := take (offset s) a @ srt lt (take (len s) (drop (offset s) a))
                        @ drop (offset s + len s) a])"

text \<open>The body of the loop over the categories, on the heap and the map \<open>rankings\<close>.\<close>

definition rankStep ::
  "Student sorter \<Rightarrow> slice \<Rightarrow> heap \<times> (string \<rightharpoonup> slice) \<Rightarrow> string
     \<Rightarrow> heap \<times> (string \<rightharpoonup> slice)" where
  "rankStep srt students st category =
     (let (h, rankings) = st;
          (h1, sortedStudents) = appendToEmpty h (readSlice h students);
          h2 = sortSliceInPlace srt (scoreLess category) h1 sortedStudents
      in (h2, rankings(category \<mapsto> sortedStudents\<lparr>len := min' 3 (len sortedStudents)\<rparr>)))"

definition rankStudentsHeap ::
  "Student sorter \<Rightarrow> heap \<Rightarrow> slice \<Rightarrow> heap \<times> (string \<rightharpoonup> slice)" where
  "rankStudentsHeap srt h students = foldl (rankStep srt students) (h, Map.empty) categories"

subsection \<open>The program\<close>

text \<open>
  \<open>for key, val := range m\<close> visits every key of the map once, in an order the runtime
  chooses anew at each loop. \<open>rangeMap ks m\<close> is the visit in the order \<open>ks\<close>, and
  \<open>iterationOrder ks m\<close> says that \<open>ks\<close> is an order the runtime can choose for \<open>m\<close>.
\<close>

definition rangeMap :: "string list \<Rightarrow> (string \<rightharpoonup> 'v) \<Rightarrow> (string \<times> 'v) list" where
  "rangeMap ks m = concat (map (\<lambda>k. case m k of None \<Rightarrow> [] | Some v \<Rightarrow> [(k, v)]) ks)"

definition iterationOrder :: "string list \<Rightarrow> (string \<rightharpoonup> 'v) \<Rightarrow> bool" where
  "iterationOrder ks m \<longleftrightarrow> distinct ks \<and> set ks = dom m"

definition averageLine :: "string \<times> real \<Rightarrow> string" where
  "averageLine e = fst e @ '': '' @ fmt_2f (snd e) @ nl"

definition branchLine :: "string \<times> real \<Rightarrow> string" where
  "branchLine e = ''Branch '' @ fst e @ '': '' @ fmt_2f (snd e) @ nl"

definition rankLine :: "string \<Rightarrow> nat \<times> Student \<Rightarrow> string" where
  "rankLine category e =
     ''Rank:'' @ fmt_d (int (fst e) + 1) @ ''. '' @ Emplid (snd e) @ '' - ''
       @ fmt_2f (getScoreByCategory (snd e) category) @ nl"

definition rankingBlock :: "string \<times> Student list \<Rightarrow> string" where
  "rankingBlock e =
     nl @ fst e @ '':'' @ nl @ concat (map (rankLine (fst e)) (enumerate 0 (snd e)))"

text \<open>
  \<open>main\<close> returns what the program printed, and the panic that ended it if there was
  one. \<open>args\<close> is \<open>os.Args\<close>, \<open>openFile\<close> what the spreadsheet library reads at a path, and
  \<open>ks1\<close>, \<open>ks2\<close>, \<open>ks3\<close> are the orders of the three loops over maps.
\<close>

definition main ::
  "floatParser \<Rightarrow> Student sorter \<Rightarrow> string list \<Rightarrow> string list \<Rightarrow> string list
     \<Rightarrow> string list \<Rightarrow> (string \<Rightarrow> workbook) \<Rightarrow> string \<times> error option" where
  "main pf srt ks1 ks2 ks3 args openFile =
     (if length args < 2 then (''Usage: go run main.go <path-to-excel-file>'' @ nl, None)
      else
        let filePath = args ! 1
        in case parseExcel pf (openFile filePath) of
             (out, Inl RuntimePanic) \<Rightarrow> (out, Some RuntimePanic)
           | (out, Inl e) \<Rightarrow> (out @ ''Error: '' @ message e @ nl, None)
           | (out, Inr students) \<Rightarrow>
               (out
                @ nl @ ''--- Average Scores ---'' @ nl
                @ concat (map averageLine (rangeMap ks1 (computeAverages students)))
                @ nl @ ''--- Branch-wise Averages (2024 Batch) ---'' @ nl
                @ concat (map branchLine (rangeMap ks2 (computeBranchAverages students)))
                @ nl @ ''--- Top 3 Students Per Component ---'' @ nl
                @ concat (map rankingBlock (rangeMap ks3 (rankStudents srt students))),
                None))"

subsection \<open>Example data\<close>

text \<open>The example row of the specification, and records and rows for concrete checks.\<close>

definition exampleRow :: "string list" where
  "exampleRow = [''1'', ''1'', ''E001'', ''2024A1001'', ''8'', ''25'', ''9'', ''9'', ''51'', ''40'', ''91'']"

definition student1 :: Student where
  "student1 = \<lparr>SlNo = 1, ClassNo = 1, Emplid = ''E001'', CampusID = ''2024A1001'',
      Quiz = 8, MidSem = 25, LabTest = 9, WeeklyLabs = 9, PreCompre = 51, Compre = 40,
      Total = 91, ComputedSum = 91\<rparr>"

definition student2 :: Student where
  "student2 = \<lparr>SlNo = 2, ClassNo = 1, Emplid = ''E002'', CampusID = ''2024A7002'',
      Quiz = 6, MidSem = 15, LabTest = 7, WeeklyLabs = 5, PreCompre = 33, Compre = 30,
      Total = 63, ComputedSum = 63\<rparr>"

definition student3 :: Student where
  "student3 = student1\<lparr>SlNo := 3, Emplid := ''E003'', Total := 10\<rparr>"

definition student4 :: Student where
  "student4 = student1\<lparr>SlNo := 4, Emplid := ''E004'', Total := 20\<rparr>"

definition student5 :: Student where
  "student5 = student1\<lparr>SlNo := 5, Emplid := ''E005'', Total := 20\<rparr>"

definition student6 :: Student where
  "student6 = student1\<lparr>SlNo := 6, Emplid := ''E006'', Total := 5\<rparr>"

definition sampleHeap :: heap where
  "sampleHeap = [[student3, student4, student5, student6]]"

definition sampleSlice :: slice where
  "sampleSlice = \<lparr>array = 0, offset = 0, len = 4\<rparr>"

definition sampleFile :: "string \<Rightarrow> workbook" where
  "sampleFile path = Sheet [[], exampleRow]"



section \<open>Properties\<close>

subsection \<open>Averages\<close>

lemma sumLoop_other: "k \<notin> set categories \<Longrightarrow> sumLoop ss m k = m k"
  by (induction ss arbitrary: m) (auto simp: addTo_def categories_def)

lemma sumLoop_Cons_cat:
  "c \<in> set categories \<Longrightarrow>
   sumLoop (s # ss) m c = Some (lookup0 m c + sum_list (map (\<lambda>s. getScoreByCategory s c) (s # ss)))"
proof (induction ss arbitrary: m s)
  case Nil
  then show ?case
    by (auto simp: addTo_def categories_def lookup0_def getScoreByCategory_def)
next
  case (Cons t ss)
  have step: "sumLoop (s # t # ss) m = sumLoop (t # ss) (sumLoop [s] m)"
    by simp
  have one: "lookup0 (sumLoop [s] m) c = lookup0 m c + getScoreByCategory s c"
    using Cons.prems
    by (auto simp: addTo_def categories_def lookup0_def getScoreByCategory_def)
  show ?case
    unfolding step using Cons.IH [OF Cons.prems, of t "sumLoop [s] m"] one
    by (simp add: algebra_simps)
qed

lemma computeAverages_cat:
  assumes "students \<noteq> []" "c \<in> set categories"
  shows "computeAverages students c =
           Some (sum_list (map (\<lambda>s. getScoreByCategory s c) students) / real (length students))"
proof -
  obtain s ss where "students = s # ss" using assms(1) by (cases students) auto
  then show ?thesis
    using sumLoop_Cons_cat [OF assms(2), of s ss Map.empty]
    by (simp add: computeAverages_def lookup0_def)
qed

lemma computeAverages_dom:
  assumes ne: "students \<noteq> []"
  shows "dom (computeAverages students) = set categories"
proof -
  have "computeAverages students k \<noteq> None \<longleftrightarrow> k \<in> set categories" for k
  proof (cases "k \<in> set categories")
    case True
    then show ?thesis using computeAverages_cat [OF ne True] by simp
  next
    case False
    then show ?thesis by (simp add: computeAverages_def sumLoop_other)
  qed
  then show ?thesis by (auto simp: dom_def)
qed

text \<open>
  C6, as stated, at the empty list: the claim gives the key \<open>Quiz\<close> the sum divided by
  the count, and \<open>computeAverages\<close> gives it nothing.
\<close>

theorem computeAverages_empty_no_mean:
  "computeAverages [] ''Quiz'' \<noteq> Some (sum_list (map Quiz []) / real (length ([] :: Student list)))"
  by (simp add: computeAverages_def)

text \<open>
  C6, amended: for every record list that is not empty, \<open>computeAverages\<close> returns a map
  whose keys are the seven components, and the value at each is the sum of that field
  over all records divided by the number of records.
\<close>

theorem computeAverages_mean:
  assumes "students \<noteq> []"
  shows "computeAverages students ''Quiz'' = Some (sum_list (map Quiz students) / real (length students))
       \<and> computeAverages students ''MidSem'' = Some (sum_list (map MidSem students) / real (length students))
       \<and> computeAverages students ''LabTest'' = Some (sum_list (map LabTest students) / real (length students))
       \<and> computeAverages students ''WeeklyLabs'' = Some (sum_list (map WeeklyLabs students) / real (length students))
       \<and> computeAverages students ''PreCompre'' = Some (sum_list (map PreCompre students) / real (length students))
       \<and> computeAverages students ''Compre'' = Some (sum_list (map Compre students) / real (length students))
       \<and> computeAverages students ''Total'' = Some (sum_list (map Total students) / real (length students))
       \<and> dom (computeAverages students) =
           {''Quiz'', ''MidSem'', ''LabTest'', ''WeeklyLabs'', ''PreCompre'', ''Compre'', ''Total''}"
proof -
  have cat: "c \<in> set categories \<Longrightarrow> computeAverages students c =
      Some (sum_list (map (\<lambda>s. getScoreByCategory s c) students) / real (length students))" for c
    using computeAverages_cat [OF assms] .
  have "computeAverages students ''Quiz'' = Some (sum_list (map Quiz students) / real (length students))"
    using cat [of "''Quiz''"] by (simp add: categories_def getScoreByCategory_def)
  moreover have "computeAverages students ''MidSem'' = Some (sum_list (map MidSem students) / real (length students))"
    using cat [of "''MidSem''"] by (simp add: categories_def getScoreByCategory_def)
  moreover have "computeAverages students ''LabTest'' = Some (sum_list (map LabTest students) / real (length students))"
    using cat [of "''LabTest''"] by (simp add: categories_def getScoreByCategory_def)
  moreover have "computeAverages students ''WeeklyLabs'' = Some (sum_list (map WeeklyLabs students) / real (length students))"
    using cat [of "''WeeklyLabs''"] by (simp add: categories_def getScoreByCategory_def)
  moreover have "computeAverages students ''PreCompre'' = Some (sum_list (map PreCompre students) / real (length students))"
    using cat [of "''PreCompre''"] by (simp add: categories_def getScoreByCategory_def)
  moreover have "computeAverages students ''Compre'' = Some (sum_list (map Compre students) / real (length students))"
    using cat [of "''Compre''"] by (simp add: categories_def getScoreByCategory_def)
  moreover have "computeAverages students ''Total'' = Some (sum_list (map Total students) / real (length students))"
    using cat [of "''Total''"] by (simp add: categories_def getScoreByCategory_def)
  moreover have "dom (computeAverages students) =
      {''Quiz'', ''MidSem'', ''LabTest'', ''WeeklyLabs'', ''PreCompre'', ''Compre'', ''Total''}"
    using computeAverages_dom [OF assms] by (simp add: categories_def)
  ultimately show ?thesis by blast
qed

theorem computeAverages_mean_witness:
  "[student1, student2] \<noteq> []
   \<and> computeAverages [student1, student2] ''Quiz'' = Some 7
   \<and> computeAverages [student1, student2] ''Total'' = Some 77
   \<and> dom (computeAverages [student1, student2]) =
       {''Quiz'', ''MidSem'', ''LabTest'', ''WeeklyLabs'', ''PreCompre'', ''Compre'', ''Total''}"
  using computeAverages_mean [of "[student1, student2]"]
  by (simp add: student1_def student2_def)

text \<open>
  C10: on the empty list \<open>computeAverages\<close> returns the empty map. No key is present, so
  the map holds no quotient at all: the loop that divides runs over no key.
\<close>

theorem computeAverages_Nil:
  "computeAverages [] = Map.empty \<and> dom (computeAverages []) = {} \<and> ran (computeAverages []) = {}"
  by (simp add: computeAverages_def)

subsection \<open>Rows\<close>

lemma parseRow_no_panic: "11 \<le> length row \<Longrightarrow> snd (parseRow pf n row) \<noteq> Inl RuntimePanic"
  by (auto simp: parseRow_def Let_def split: option.splits prod.splits)


lemma rowsLoop_total: "\<exists>out' ss'. rowsLoop pf irows out ss = (out', Inr ss')"
proof (induction irows arbitrary: out ss)
  case Nil
  then show ?case by simp
next
  case (Cons ir rest)
  obtain i row where ir: "ir = (i, row)" by (cases ir)
  show ?case
  proof (cases "length row < 11")
    case True
    then show ?thesis using Cons.IH ir by simp
  next
    case False
    then have np: "snd (parseRow pf (int i + 2) row) \<noteq> Inl RuntimePanic"
      using parseRow_no_panic [of row pf "int i + 2"] by simp
    obtain d r where pr: "parseRow pf (int i + 2) row = (d, r)" by (cases "parseRow pf (int i + 2) row")
    show ?thesis
    proof (cases r)
      case (Inl e)
      with np pr have "e \<noteq> RuntimePanic" by auto
      then show ?thesis using False pr Inl ir Cons.IH
        by (cases e) auto
    next
      case (Inr s)
      then show ?thesis using False pr ir Cons.IH by auto
    qed
  qed
qed

lemmas eval_defs = parseRow_def Atoi_def digit_of_def parseFloat_def parseDecimal_def
  almostEqual_def fmt_d_def fmt_2f_def roundHalfEven_def fmt_nat.simps digitChar_def nl_def Let_def

lemma rowsLoop_origin:
  "rowsLoop pf irows out ss = (out', Inr ss') \<Longrightarrow>
   set ss' \<subseteq> set ss \<union> {s. \<exists>p \<in> set irows. 11 \<le> length (snd p) \<and> snd (parseRow pf (int (fst p) + 2) (snd p)) = Inr s}"
proof (induction irows arbitrary: out ss)
  case Nil
  then show ?case by simp
next
  case (Cons ir rest)
  obtain i row where ir: "ir = (i, row)" by (cases ir)
  show ?case
  proof (cases "length row < 11")
    case True
    then show ?thesis using Cons.IH [of out ss] Cons.prems ir by auto
  next
    case False
    obtain d r where pr: "parseRow pf (int i + 2) row = (d, r)" by (cases "parseRow pf (int i + 2) row")
    show ?thesis
    proof (cases r)
      case (Inl e)
      show ?thesis
      proof (cases "e = RuntimePanic")
        case True
        then show ?thesis using False pr Inl ir Cons.prems by simp
      next
        case False
        have "rowsLoop pf rest (out @ d @ ''Error parsing row '' @ fmt_d (int i + 2) @ '': '' @ message e @ nl) ss = (out', Inr ss')"
          using \<open>\<not> length row < 11\<close> pr Inl ir Cons.prems False by (cases e) auto
        from Cons.IH [OF this] show ?thesis by auto
      qed
    next
      case (Inr s)
      have "rowsLoop pf rest (out @ d) (ss @ [s]) = (out', Inr ss')"
        using False pr Inr ir Cons.prems by simp
      from Cons.IH [OF this] show ?thesis using False pr Inr ir by auto
    qed
  qed
qed

lemma rowsLoop_filter:
  "rowsLoop pf irows out ss = rowsLoop pf (filter (\<lambda>(i, row). 11 \<le> length row) irows) out ss"
proof (induction irows arbitrary: out ss)
  case Nil
  then show ?case by simp
next
  case (Cons ir rest)
  obtain i row where ir: "ir = (i, row)" by (cases ir)
  show ?case using Cons.IH ir
    by (auto split: prod.splits sum.splits error.splits)
qed




text \<open>
  C1 at the example row with \<open>abc\<close> in the quiz column: \<open>ParseFloat\<close> reports an error for
  the cell, the next call overwrites it, and \<open>parseRow\<close> returns a record with a quiz
  score of 0; \<open>parseExcel\<close> keeps the record.
\<close>

theorem parseRow_ignores_bad_score:
  "parseDecimal ''abc'' = (0, True)
   \<and> parseRow parseDecimal 2 (exampleRow[4 := ''abc'']) =
       (''Error: Mismatch in PreCompre at row 2. Expected 43.00, Found 51.00'' @ nl
        @ ''Error: Mismatch in total at row 2. Expected 83.00, Found 91.00'' @ nl,
        Inr (student1\<lparr>Quiz := 0, ComputedSum := 83\<rparr>))
   \<and> parseExcel parseDecimal (Sheet [[], exampleRow[4 := ''abc'']]) =
       (''Error: Mismatch in PreCompre at row 2. Expected 43.00, Found 51.00'' @ nl
        @ ''Error: Mismatch in total at row 2. Expected 83.00, Found 91.00'' @ nl,
        Inr [student1\<lparr>Quiz := 0, ComputedSum := 83\<rparr>])"
  by (simp add: parseExcel_def enumerate_eq_zip exampleRow_def student1_def eval_defs)





text \<open>
  C9, as stated, on a sheet whose only data row has three cells: the claim has the row
  logged as a parse anomaly, and \<open>parseExcel\<close> prints nothing for it.
\<close>

theorem parseExcel_short_row_silent:
  "parseExcel parseDecimal (Sheet [exampleRow, [''7'', ''1'', ''E007'']]) = ('''', Inr [])"
  by (simp add: parseExcel_def enumerate_eq_zip)

text \<open>
  C9, amended: every data row with fewer than 11 cells is skipped without a word. What
  \<open>parseExcel\<close> prints and returns is what the loop prints and returns on the rows of
  11 cells or more alone, each under its own row number; the result is a record list,
  never an error; every record in it is the parse of a data row of 11 cells or more;
  and the header row is not looked at.
\<close>

theorem parseExcel_short_rows:
  "parseExcel pf (Sheet (hdr # rows)) =
     rowsLoop pf (filter (\<lambda>(i, row). 11 \<le> length row) (enumerate 0 rows)) '''' []
   \<and> (\<exists>out students. parseExcel pf (Sheet (hdr # rows)) = (out, Inr students)
        \<and> (\<forall>s \<in> set students. \<exists>i < length rows. 11 \<le> length (rows ! i)
              \<and> snd (parseRow pf (int i + 2) (rows ! i)) = Inr s))"
proof -
  have pe: "parseExcel pf (Sheet (hdr # rows)) = rowsLoop pf (enumerate 0 rows) '''' []"
    by (simp add: parseExcel_def)
  obtain out students where r: "rowsLoop pf (enumerate 0 rows) '''' [] = (out, Inr students)"
    using rowsLoop_total by blast
  have "\<exists>i < length rows. 11 \<le> length (rows ! i) \<and> snd (parseRow pf (int i + 2) (rows ! i)) = Inr s"
    if "s \<in> set students" for s
  proof -
    from rowsLoop_origin [OF r] that
    obtain p where p: "p \<in> set (enumerate 0 rows)" "11 \<le> length (snd p)"
      "snd (parseRow pf (int (fst p) + 2) (snd p)) = Inr s" by auto
    from p(1) have "fst p < length rows" "snd p = rows ! fst p"
      by (auto simp: in_set_enumerate_eq)
    with p show ?thesis by auto
  qed
  with pe r rowsLoop_filter [of pf "enumerate 0 rows" "''''" "[]"] show ?thesis by auto
qed

theorem parseExcel_short_rows_witness:
  "parseExcel parseDecimal (Sheet [[], [''7'', ''1'', ''E007''], exampleRow]) = ('''', Inr [student1])"
  using parseExcel_short_rows [of parseDecimal "[]" "[[''7'', ''1'', ''E007''], exampleRow]"]
  by (simp add: enumerate_eq_zip exampleRow_def student1_def eval_defs)

subsection \<open>Branch averages\<close>

lemma Contains_A: "Contains s ''A'' \<longleftrightarrow> CHR ''A'' \<in> set s"
  by (induction s) auto

lemma branchLoop_eq:
  "branchLoop ss bt bc =
     ((\<lambda>b. let q = filter (\<lambda>s. qualifies s \<and> branchCodeOf s = b) ss
            in if q = [] then bt b else Some (lookup0 bt b + sum_list (map Total q))),
      (\<lambda>b. let q = filter (\<lambda>s. qualifies s \<and> branchCodeOf s = b) ss
            in if q = [] then bc b else Some (lookup0 bc b + int (length q))))"
proof (induction ss arbitrary: bt bc)
  case Nil
  then show ?case by simp
next
  case (Cons s ss)
  show ?case
  proof (cases "qualifies s")
    case False
    then have "branchLoop (s # ss) bt bc = branchLoop ss bt bc"
      by (auto simp: qualifies_def branchCodeOf_def Contains_A Let_def)
    then show ?thesis using False Cons.IH by simp
  next
    case True
    then have "branchLoop (s # ss) bt bc =
        branchLoop ss (addTo bt (branchCodeOf s) (Total s)) (incr bc (branchCodeOf s))"
      by (auto simp: qualifies_def branchCodeOf_def Contains_A Let_def)
    then show ?thesis using True
      unfolding Cons.IH
      by (auto simp: Let_def addTo_def incr_def lookup0_def fun_eq_iff)
  qed
qed

lemma computeBranchAverages_eq:
  "computeBranchAverages students b =
     (let q = filter (\<lambda>s. qualifies s \<and> branchCodeOf s = b) students
      in if q = [] then None else Some (sum_list (map Total q) / real (length q)))"
  by (simp add: computeBranchAverages_def branchLoop_eq Let_def lookup0_def)

text \<open>
  C4: a record counts for the branch code \<open>b\<close> exactly when it qualifies (campus id of
  at least 6 characters, first four \<open>2024\<close>, an \<open>A\<close> in the branch code) and its branch
  code is \<open>b\<close>. A branch code with no such record is not a key of the result; any other
  is mapped to the sum of \<open>Total\<close> over its records divided by their number. A record
  that fails a condition is in no such list, so it counts for no branch.
\<close>

theorem computeBranchAverages_mean:
  "computeBranchAverages students b =
     (let q = filter (\<lambda>s. qualifies s \<and> branchCodeOf s = b) students
      in if q = [] then None else Some (sum_list (map Total q) / real (length q)))"
  by (rule computeBranchAverages_eq)

subsection \<open>Rankings\<close>








lemma rankStudents_cat:
  "c \<in> set categories \<Longrightarrow>
   rankStudents srt students c = Some (take (min' 3 (length students)) (srt (scoreLess c) students))"
  by (auto simp: rankStudents_def categories_def)





subsection \<open>What the ranking writes\<close>

lemma rankStep_eq:
  "rankStep srt students (H, rk) c =
     (H @ [srt (scoreLess c) (readSlice H students)],
      rk(c \<mapsto> \<lparr>array = length H, offset = 0, len = min' 3 (length (readSlice H students))\<rparr>))"
  by (simp add: rankStep_def appendToEmpty_def sortSliceInPlace_def Let_def)

lemma readSlice_prefix:
  assumes "array students < length h" "take (length h) H = h"
  shows "readSlice H students = readSlice h students"
proof -
  have "h ! array students = take (length h) H ! array students"
    using assms(2) by simp
  also have "\<dots> = H ! array students"
    using assms(1) by simp
  finally show ?thesis by (simp add: readSlice_def)
qed

lemma rankLoop:
  assumes "array students < length h" "take (length h) H = h" "distinct cs"
  shows "\<exists>rk'. foldl (rankStep srt students) (H, rk) cs =
            (H @ map (\<lambda>c. srt (scoreLess c) (readSlice h students)) cs, rk')
          \<and> (\<forall>i < length cs. rk' (cs ! i) =
                Some \<lparr>array = length H + i, offset = 0, len = min' 3 (length (readSlice h students))\<rparr>)
          \<and> (\<forall>c. c \<notin> set cs \<longrightarrow> rk' c = rk c)"
  using assms(2,3)
proof (induction cs arbitrary: H rk)
  case Nil
  then show ?case by simp
next
  case (Cons c cs)
  let ?xs = "readSlice h students"
  let ?H1 = "H @ [srt (scoreLess c) ?xs]"
  let ?sl = "\<lparr>array = length H, offset = 0, len = min' 3 (length ?xs)\<rparr>"
  let ?rk1 = "rk(c \<mapsto> ?sl)"
  have rs: "readSlice H students = ?xs"
    using readSlice_prefix [OF assms(1) Cons.prems(1)] .
  have step: "rankStep srt students (H, rk) c = (?H1, ?rk1)"
    by (simp add: rankStep_eq rs)
  have lenH: "length h \<le> length H"
    using Cons.prems(1) by (metis length_take min.cobounded2 min.commute)
  have pre1: "take (length h) ?H1 = h"
    using Cons.prems(1) lenH by simp
  have dcs: "distinct cs" using Cons.prems(2) by simp
  from Cons.IH [OF pre1 dcs, of ?rk1]
  obtain rk' where f: "foldl (rankStep srt students) (?H1, ?rk1) cs =
        (?H1 @ map (\<lambda>c. srt (scoreLess c) ?xs) cs, rk')"
    and i: "\<forall>i < length cs. rk' (cs ! i) =
        Some \<lparr>array = length ?H1 + i, offset = 0, len = min' 3 (length ?xs)\<rparr>"
    and o: "\<forall>d. d \<notin> set cs \<longrightarrow> rk' d = ?rk1 d"
    by blast
  have a: "foldl (rankStep srt students) (H, rk) (c # cs) =
        (H @ map (\<lambda>c. srt (scoreLess c) ?xs) (c # cs), rk')"
    using f step by simp
  have b: "rk' ((c # cs) ! j) =
        Some \<lparr>array = length H + j, offset = 0, len = min' 3 (length ?xs)\<rparr>"
    if "j < length (c # cs)" for j
  proof (cases j)
    case 0
    have "c \<notin> set cs" using Cons.prems(2) by simp
    then show ?thesis using o 0 by simp
  next
    case (Suc k)
    then show ?thesis using i that by simp
  qed
  have c: "rk' d = rk d" if "d \<notin> set (c # cs)" for d
    using o that by simp
  show ?case using a b c by blast
qed

text \<open>
  C7: when the input slice lies in an array of the heap, \<open>rankStudents\<close> leaves every
  array that existed before the call as it was, so the input list reads the same,
  element by element, after the call. Each category's ranking is a slice of an array
  allocated during the call, a different array for each category, and at the end of
  the call it still reads as the ranking computed for that category.
\<close>

theorem rankStudentsHeap_frame:
  assumes "array students < length h"
  shows "\<exists>h' rankings. rankStudentsHeap srt h students = (h', rankings)
           \<and> take (length h) h' = h
           \<and> readSlice h' students = readSlice h students
           \<and> (\<forall>c \<in> set categories. \<exists>sl. rankings c = Some sl \<and> length h \<le> array sl
                 \<and> Some (readSlice h' sl) = rankStudents srt (readSlice h students) c)
           \<and> distinct (map (\<lambda>c. map_option array (rankings c)) categories)"
proof -
  let ?xs = "readSlice h students"
  have d: "distinct categories" by (simp add: categories_def)
  from rankLoop [OF assms _ d, of h srt Map.empty]
  obtain rk' where f: "rankStudentsHeap srt h students =
        (h @ map (\<lambda>c. srt (scoreLess c) ?xs) categories, rk')"
    and i: "\<forall>i < length categories. rk' (categories ! i) =
        Some \<lparr>array = length h + i, offset = 0, len = min' 3 (length ?xs)\<rparr>"
    unfolding rankStudentsHeap_def by auto
  let ?h' = "h @ map (\<lambda>c. srt (scoreLess c) ?xs) categories"
  have p: "take (length h) ?h' = h" by simp
  have r: "readSlice ?h' students = ?xs"
    using readSlice_prefix [OF assms p] .
  have q: "\<exists>sl. rk' c = Some sl \<and> length h \<le> array sl
                 \<and> Some (readSlice ?h' sl) = rankStudents srt ?xs c"
    if "c \<in> set categories" for c
  proof -
    from that obtain j where j: "j < length categories" "categories ! j = c"
      by (auto simp: in_set_conv_nth)
    let ?sl = "\<lparr>array = length h + j, offset = 0, len = min' 3 (length ?xs)\<rparr>"
    have s: "rk' c = Some ?sl" using i j by auto
    have "?h' ! (length h + j) = srt (scoreLess c) ?xs"
      using j by (simp add: nth_append)
    then have "readSlice ?h' ?sl = take (min' 3 (length ?xs)) (srt (scoreLess c) ?xs)"
      by (simp add: readSlice_def)
    then have "Some (readSlice ?h' ?sl) = rankStudents srt ?xs c"
      using rankStudents_cat [OF that] by simp
    then show ?thesis using s by simp
  qed
  have "map (\<lambda>c. map_option array (rk' c)) categories =
        map (\<lambda>j. Some (length h + j)) [0..<length categories]"
  proof (rule nth_equalityI)
    show "length (map (\<lambda>c. map_option array (rk' c)) categories) =
          length (map (\<lambda>j. Some (length h + j)) [0..<length categories])"
      by simp
  next
    fix k
    assume "k < length (map (\<lambda>c. map_option array (rk' c)) categories)"
    then have k: "k < length categories" by simp
    then have "rk' (categories ! k) =
        Some \<lparr>array = length h + k, offset = 0, len = min' 3 (length ?xs)\<rparr>"
      using i by blast
    then show "map (\<lambda>c. map_option array (rk' c)) categories ! k =
          map (\<lambda>j. Some (length h + j)) [0..<length categories] ! k"
      using k by simp
  qed
  moreover have "distinct (map (\<lambda>j. Some (length h + j)) [0..<length categories])"
    by (simp add: distinct_map inj_on_def)
  ultimately have dd: "distinct (map (\<lambda>c. map_option array (rk' c)) categories)"
    by simp
  show ?thesis using f p r q dd by blast
qed

theorem rankStudentsHeap_frame_witness:
  "array sampleSlice < length sampleHeap
   \<and> readSlice (fst (rankStudentsHeap insertionSort sampleHeap sampleSlice)) sampleSlice
       = [student3, student4, student5, student6]
   \<and> take 1 (fst (rankStudentsHeap insertionSort sampleHeap sampleSlice)) = sampleHeap
   \<and> map_option (readSlice (fst (rankStudentsHeap insertionSort sampleHeap sampleSlice)))
         (snd (rankStudentsHeap insertionSort sampleHeap sampleSlice) ''Total'')
       = Some [student4, student5, student3]"
proof -
  have h: "array sampleSlice < length sampleHeap"
    by (simp add: sampleSlice_def sampleHeap_def)
  have r: "readSlice sampleHeap sampleSlice = [student3, student4, student5, student6]"
    by (simp add: readSlice_def sampleSlice_def sampleHeap_def)
  have l: "length sampleHeap = 1" by (simp add: sampleHeap_def)
  have t: "''Total'' \<in> set categories" by (simp add: categories_def)
  have k: "rankStudents insertionSort [student3, student4, student5, student6] ''Total''
       = Some [student4, student5, student3]"
    by (simp add: rankStudents_cat categories_def insertionSort_def scoreLess_def getScoreByCategory_def
        min'_def student3_def student4_def student5_def student6_def student1_def)
  from rankStudentsHeap_frame [OF h, of insertionSort]
  obtain h' rankings where f: "rankStudentsHeap insertionSort sampleHeap sampleSlice = (h', rankings)"
    and p: "take (length sampleHeap) h' = sampleHeap"
    and s: "readSlice h' sampleSlice = readSlice sampleHeap sampleSlice"
    and c: "\<forall>c \<in> set categories. \<exists>sl. rankings c = Some sl \<and> length sampleHeap \<le> array sl
          \<and> Some (readSlice h' sl) = rankStudents insertionSort (readSlice sampleHeap sampleSlice) c"
    by blast
  from c t obtain sl where "rankings ''Total'' = Some sl"
    and "Some (readSlice h' sl) = rankStudents insertionSort (readSlice sampleHeap sampleSlice) ''Total''"
    by blast
  then have "map_option (readSlice h') (rankings ''Total'') = Some [student4, student5, student3]"
    using r k by simp
  then show ?thesis using h f p s r l by simp
qed

subsection \<open>The whole run\<close>

lemma parse_sample: "parseExcel parseDecimal (Sheet [[], exampleRow]) = ('''', Inr [student1])"
  by (simp add: parseExcel_def enumerate_eq_zip exampleRow_def student1_def eval_defs)

lemma order_categories:
  "iterationOrder categories (computeAverages [student1])
   \<and> iterationOrder (rev categories) (computeAverages [student1])"
  using computeAverages_dom [of "[student1]"]
  by (simp add: iterationOrder_def) (simp add: categories_def)

lemma avg_sample:
  "rangeMap categories (computeAverages [student1]) =
     [(''Quiz'', 8), (''MidSem'', 25), (''LabTest'', 9), (''WeeklyLabs'', 9),
      (''PreCompre'', 51), (''Compre'', 40), (''Total'', 91)]"
  by (simp add: rangeMap_def categories_def computeAverages_def addTo_def lookup0_def student1_def)

lemma avg_sample_rev:
  "rangeMap (rev categories) (computeAverages [student1]) =
     rev [(''Quiz'', 8), (''MidSem'', 25), (''LabTest'', 9), (''WeeklyLabs'', 9),
      (''PreCompre'', 51), (''Compre'', 40), (''Total'', 91)]"
  by (simp add: rangeMap_def categories_def computeAverages_def addTo_def lookup0_def student1_def)

lemma rangeMap_valid:
  assumes "iterationOrder ks m"
  shows "rangeMap ks m = map (\<lambda>k. (k, the (m k))) ks"
proof -
  have "set ks \<subseteq> dom m" using assms by (simp add: iterationOrder_def)
  then show ?thesis
    unfolding rangeMap_def by (induction ks) auto
qed

lemma mset_rangeMap:
  assumes "iterationOrder ks m" "iterationOrder ks' m"
  shows "mset (rangeMap ks m) = mset (rangeMap ks' m)"
proof -
  have "mset ks = mset ks'"
    using assms by (simp add: iterationOrder_def set_eq_iff_mset_eq_distinct [symmetric])
  then have "mset (map (\<lambda>k. (k, the (m k))) ks) = mset (map (\<lambda>k. (k, the (m k))) ks')"
    by (metis mset_map)
  then show ?thesis
    by (simp add: rangeMap_valid [OF assms(1)] rangeMap_valid [OF assms(2)])
qed

lemma main_early:
  assumes "length args < 2 \<or> isl (snd (parseExcel pf (openFile (args ! 1))))"
  shows "main pf srt ks1 ks2 ks3 args openFile = main pf srt ks1' ks2' ks3' args openFile"
proof (cases "length args < 2")
  case True
  then show ?thesis by (simp add: main_def)
next
  case False
  obtain out r where pe: "parseExcel pf (openFile (args ! 1)) = (out, r)"
    by (cases "parseExcel pf (openFile (args ! 1))")
  with assms False obtain e where "r = Inl e" by (cases r) auto
  then show ?thesis using False pe by (cases e) (simp_all add: main_def)
qed

lemma main_report:
  assumes "2 \<le> length args" "parseExcel pf (openFile (args ! 1)) = (out, Inr students)"
  shows "main pf srt ks1 ks2 ks3 args openFile =
           (out
            @ nl @ ''--- Average Scores ---'' @ nl
            @ concat (map averageLine (rangeMap ks1 (computeAverages students)))
            @ nl @ ''--- Branch-wise Averages (2024 Batch) ---'' @ nl
            @ concat (map branchLine (rangeMap ks2 (computeBranchAverages students)))
            @ nl @ ''--- Top 3 Students Per Component ---'' @ nl
            @ concat (map rankingBlock (rangeMap ks3 (rankStudents srt students))),
            None)"
  using assms by (simp add: main_def)

lemma rankStudents_dom: "dom (rankStudents srt students) = set categories"
  by (auto simp: rankStudents_def categories_def)

lemma branch_sample_dom: "dom (computeBranchAverages [student1]) = {''A1''}"
  by (auto simp: dom_def computeBranchAverages_eq qualifies_def branchCodeOf_def student1_def
      split: if_splits)

text \<open>
  C2, as stated, on a sheet with the example row alone: the loop that prints the
  averages may visit the keys of the map in the order of \<open>categories\<close> or in the
  reverse order, and the two runs print different bytes.
\<close>

theorem main_depends_on_map_order:
  "iterationOrder categories (computeAverages [student1])
   \<and> iterationOrder (rev categories) (computeAverages [student1])
   \<and> main parseDecimal insertionSort categories [''A1''] categories [''student'', ''marks.xlsx''] sampleFile
       \<noteq> main parseDecimal insertionSort (rev categories) [''A1''] categories [''student'', ''marks.xlsx''] sampleFile"
proof -
  have "concat (map averageLine (rangeMap categories (computeAverages [student1])))
      \<noteq> concat (map averageLine (rangeMap (rev categories) (computeAverages [student1])))"
    unfolding avg_sample avg_sample_rev
    by (simp add: averageLine_def)
  then have "main parseDecimal insertionSort categories [''A1''] categories [''student'', ''marks.xlsx''] sampleFile
       \<noteq> main parseDecimal insertionSort (rev categories) [''A1''] categories [''student'', ''marks.xlsx''] sampleFile"
    by (simp add: main_def sampleFile_def parse_sample)
  then show ?thesis using order_categories by blast
qed

text \<open>
  C2, amended: on the same input, a run that ends before the reports (usage line,
  file error, panic) prints the same bytes whatever the orders of the map loops. A
  run that reaches the reports prints the diagnostics of the parse, then the three
  headers, each followed by one entry for each key of its map in the order of the
  visit; two runs print the same entries in each section, in orders that may differ.
\<close>

theorem main_up_to_map_order:
  "(length args < 2 \<or> isl (snd (parseExcel pf (openFile (args ! 1)))) \<longrightarrow>
      main pf srt ks1 ks2 ks3 args openFile = main pf srt ks1' ks2' ks3' args openFile)
   \<and> (2 \<le> length args \<and> parseExcel pf (openFile (args ! 1)) = (out, Inr students)
       \<and> iterationOrder ks1 (computeAverages students)
       \<and> iterationOrder ks1' (computeAverages students)
       \<and> iterationOrder ks2 (computeBranchAverages students)
       \<and> iterationOrder ks2' (computeBranchAverages students)
       \<and> iterationOrder ks3 (rankStudents srt students)
       \<and> iterationOrder ks3' (rankStudents srt students) \<longrightarrow>
      main pf srt ks1 ks2 ks3 args openFile =
        (out
         @ nl @ ''--- Average Scores ---'' @ nl
         @ concat (map averageLine (rangeMap ks1 (computeAverages students)))
         @ nl @ ''--- Branch-wise Averages (2024 Batch) ---'' @ nl
         @ concat (map branchLine (rangeMap ks2 (computeBranchAverages students)))
         @ nl @ ''--- Top 3 Students Per Component ---'' @ nl
         @ concat (map rankingBlock (rangeMap ks3 (rankStudents srt students))),
         None)
      \<and> main pf srt ks1' ks2' ks3' args openFile =
        (out
         @ nl @ ''--- Average Scores ---'' @ nl
         @ concat (map averageLine (rangeMap ks1' (computeAverages students)))
         @ nl @ ''--- Branch-wise Averages (2024 Batch) ---'' @ nl
         @ concat (map branchLine (rangeMap ks2' (computeBranchAverages students)))
         @ nl @ ''--- Top 3 Students Per Component ---'' @ nl
         @ concat (map rankingBlock (rangeMap ks3' (rankStudents srt students))),
         None)
      \<and> mset (rangeMap ks1 (computeAverages students)) = mset (rangeMap ks1' (computeAverages students))
      \<and> mset (rangeMap ks2 (computeBranchAverages students))
          = mset (rangeMap ks2' (computeBranchAverages students))
      \<and> mset (rangeMap ks3 (rankStudents srt students)) = mset (rangeMap ks3' (rankStudents srt students)))"
proof (intro conjI impI)
  assume "length args < 2 \<or> isl (snd (parseExcel pf (openFile (args ! 1))))"
  then show "main pf srt ks1 ks2 ks3 args openFile = main pf srt ks1' ks2' ks3' args openFile"
    by (rule main_early)
next
  assume a: "2 \<le> length args \<and> parseExcel pf (openFile (args ! 1)) = (out, Inr students)
       \<and> iterationOrder ks1 (computeAverages students)
       \<and> iterationOrder ks1' (computeAverages students)
       \<and> iterationOrder ks2 (computeBranchAverages students)
       \<and> iterationOrder ks2' (computeBranchAverages students)
       \<and> iterationOrder ks3 (rankStudents srt students)
       \<and> iterationOrder ks3' (rankStudents srt students)"
  show "main pf srt ks1 ks2 ks3 args openFile =
        (out
         @ nl @ ''--- Average Scores ---'' @ nl
         @ concat (map averageLine (rangeMap ks1 (computeAverages students)))
         @ nl @ ''--- Branch-wise Averages (2024 Batch) ---'' @ nl
         @ concat (map branchLine (rangeMap ks2 (computeBranchAverages students)))
         @ nl @ ''--- Top 3 Students Per Component ---'' @ nl
         @ concat (map rankingBlock (rangeMap ks3 (rankStudents srt students))),
         None)"
    using a main_report [of args pf openFile out students srt ks1 ks2 ks3] by blast
  show "main pf srt ks1' ks2' ks3' args openFile =
        (out
         @ nl @ ''--- Average Scores ---'' @ nl
         @ concat (map averageLine (rangeMap ks1' (computeAverages students)))
         @ nl @ ''--- Branch-wise Averages (2024 Batch) ---'' @ nl
         @ concat (map branchLine (rangeMap ks2' (computeBranchAverages students)))
         @ nl @ ''--- Top 3 Students Per Component ---'' @ nl
         @ concat (map rankingBlock (rangeMap ks3' (rankStudents srt students))),
         None)"
    using a main_report [of args pf openFile out students srt ks1' ks2' ks3'] by blast
  show "mset (rangeMap ks1 (computeAverages students)) = mset (rangeMap ks1' (computeAverages students))"
    using a mset_rangeMap by blast
  show "mset (rangeMap ks2 (computeBranchAverages students))
          = mset (rangeMap ks2' (computeBranchAverages students))"
    using a mset_rangeMap by blast
  show "mset (rangeMap ks3 (rankStudents srt students)) = mset (rangeMap ks3' (rankStudents srt students))"
    using a mset_rangeMap by blast
qed

theorem main_up_to_map_order_witness:
  "2 \<le> length [''student'', ''marks.xlsx'']
   \<and> parseExcel parseDecimal (sampleFile ([''student'', ''marks.xlsx''] ! 1)) = ('''', Inr [student1])
   \<and> iterationOrder categories (computeAverages [student1])
   \<and> iterationOrder (rev categories) (computeAverages [student1])
   \<and> iterationOrder [''A1''] (computeBranchAverages [student1])
   \<and> iterationOrder categories (rankStudents insertionSort [student1])
   \<and> iterationOrder (rev categories) (rankStudents insertionSort [student1])
   \<and> mset (rangeMap categories (computeAverages [student1]))
       = mset (rangeMap (rev categories) (computeAverages [student1]))
   \<and> mset (rangeMap categories (rankStudents insertionSort [student1]))
       = mset (rangeMap (rev categories) (rankStudents insertionSort [student1]))"
proof -
  have h1: "2 \<le> length [''student'', ''marks.xlsx'']" by simp
  have h2: "parseExcel parseDecimal (sampleFile ([''student'', ''marks.xlsx''] ! 1)) = ('''', Inr [student1])"
    by (simp add: sampleFile_def parse_sample)
  have h3: "iterationOrder categories (computeAverages [student1])"
    and h4: "iterationOrder (rev categories) (computeAverages [student1])"
    using order_categories by blast+
  have h5: "iterationOrder [''A1''] (computeBranchAverages [student1])"
    by (simp add: iterationOrder_def branch_sample_dom)
  have dc: "distinct categories" by (simp add: categories_def)
  have h6: "iterationOrder categories (rankStudents insertionSort [student1])"
    and h7: "iterationOrder (rev categories) (rankStudents insertionSort [student1])"
    using dc by (simp_all add: iterationOrder_def rankStudents_dom)
  from main_up_to_map_order [of "[''student'', ''marks.xlsx'']" parseDecimal sampleFile insertionSort
      categories "[''A1'']" categories "rev categories" "[''A1'']" "rev categories" "''''" "[student1]"]
    h1 h2 h3 h4 h5 h6 h7
  show ?thesis by blast
qed

end
